theory Spec2Isabelle
  imports Main "HOL-Library.Word"
begin

section \<open>The priority class resource of the Kubernetes provider\<close>

text \<open>
  This theory embeds \<^verbatim>\<open>kubernetes/resource_kubernetes_resource_priority_class.go\<close>:
  the five operations Create, Read, Update, Delete and Exists of the resource, over
  \<^item> the configuration object \<^verbatim>\<open>d *schema.ResourceData\<close>, a path-keyed store of
    dynamically typed values (Go's \<^verbatim>\<open>interface{}\<close>),
  \<^item> the client \<^verbatim>\<open>conn.Scheduling().PriorityClasses()\<close>, an interface with the four
    calls Create, Get, Patch and Delete whose answers are not decided by this file,
  \<^item> the helpers of the same package that live in other files (\<^verbatim>\<open>expandMetadata\<close>,
    \<^verbatim>\<open>flattenMetadata\<close>, \<^verbatim>\<open>patchMetadata\<close>, \<^verbatim>\<open>buildId\<close>, \<^verbatim>\<open>MarshalJSON\<close>), taken as
    parameters.
  A run of an operation returns what the Go function returns, or the panic that stops
  it, together with the configuration object and the trace of the calls it made.
  The provider hands every operation its own client, so the assertion
  \<^verbatim>\<open>meta.(*kubernetes.Clientset)\<close> that opens each function is not a branch here.
\<close>

subsection \<open>Dynamically typed values and type assertions\<close>

text \<open>
  What an \<^verbatim>\<open>interface{}\<close> can hold in this file: Go's \<^verbatim>\<open>int\<close> (64 bits), \<^verbatim>\<open>int32\<close>,
  \<^verbatim>\<open>string\<close>, \<^verbatim>\<open>bool\<close>, \<^verbatim>\<open>[]interface{}\<close>, \<^verbatim>\<open>map[string]interface{}\<close> and nil.
\<close>

datatype gvalue =
    GInt "64 word"
  | GInt32 "32 word"
  | GString string
  | GBool bool
  | GList "gvalue list"
  | GMap "(string \<times> gvalue) list"
  | GNil

text \<open>A Go call either returns or panics; a panic carries its message.\<close>

datatype 'a outcome = Panic string | Return 'a

text \<open>
  The single-value type assertion \<^verbatim>\<open>x.(T)\<close> panics when the dynamic type of \<^verbatim>\<open>x\<close> is
  not \<^verbatim>\<open>T\<close>: there is no conversion between \<^verbatim>\<open>int\<close> and \<^verbatim>\<open>int32\<close>, nor between
  \<^verbatim>\<open>bool\<close> and \<^verbatim>\<open>string\<close>.
\<close>

fun assertInt32 :: "gvalue \<Rightarrow> 32 word outcome" where
  "assertInt32 (GInt32 v) = Return v"
| "assertInt32 _ = Panic ''interface conversion: interface {} is not int32''"

fun assertString :: "gvalue \<Rightarrow> string outcome" where
  "assertString (GString s) = Return s"
| "assertString _ = Panic ''interface conversion: interface {} is not string''"

fun assertBool :: "gvalue \<Rightarrow> bool outcome" where
  "assertBool (GBool b) = Return b"
| "assertBool _ = Panic ''interface conversion: interface {} is not bool''"

fun assertList :: "gvalue \<Rightarrow> gvalue list outcome" where
  "assertList (GList xs) = Return xs"
| "assertList _ = Panic ''interface conversion: interface {} is not []interface {}''"

text \<open>The zero value of each type, which \<^verbatim>\<open>GetOk\<close> reports as not set.\<close>

fun isZero :: "gvalue \<Rightarrow> bool" where
  "isZero (GInt n) = (n = 0)"
| "isZero (GInt32 n) = (n = 0)"
| "isZero (GString s) = (s = [])"
| "isZero (GBool b) = (\<not> b)"
| "isZero (GList xs) = (xs = [])"
| "isZero (GMap kvs) = (kvs = [])"
| "isZero GNil = True"

subsection \<open>Errors\<close>

text \<open>
  The error values of this file: what the client returns (a \<^verbatim>\<open>*errors.StatusError\<close>
  with its status code, or any other error), the three \<^verbatim>\<open>fmt.Errorf\<close> wrappers, the
  mismatch reported by the poll after creation, a failed \<^verbatim>\<open>d.Set\<close>, and the timeout
  of \<^verbatim>\<open>resource.Retry\<close>. A wrapper is a new error: it is not a \<^verbatim>\<open>*errors.StatusError\<close>.
\<close>

datatype err =
    StatusError nat
  | ClientError string
  | FailedToCreate err
  | FailedToMarshal err
  | FailedToUpdate err
  | DoesntMatch "32 word" "32 word"
  | SetFailed string
  | TimeoutError

subsection \<open>The remote object\<close>

record ObjectMeta =
  Name :: string
  GenerateName :: string
  Labels :: "(string \<times> string) list"
  Annotations :: "(string \<times> string) list"
  ResourceVersion :: string
  UID :: string

record PriorityClass =
  ObjectMeta :: ObjectMeta
  Value :: "32 word"
  Description :: string
  GlobalDefault :: bool

datatype PatchOperation =
    ReplaceOperation string gvalue
  | AddOperation string gvalue
  | RemoveOperation string

subsection \<open>The configuration object\<close>

text \<open>
  \<^verbatim>\<open>schema.ResourceData\<close>: the identifier, the values of the prior state and the
  current values, both keyed by path (\<^verbatim>\<open>"value"\<close>, \<^verbatim>\<open>"metadata.0.generate_name"\<close>).
  \<^verbatim>\<open>Get\<close> reads a current value, \<^verbatim>\<open>HasChange\<close> compares prior and current,
  \<^verbatim>\<open>GetOk\<close> also tells whether the value is set to something other than the zero value.
\<close>

record ResourceData =
  Id_rd :: string
  state :: "string \<Rightarrow> gvalue"
  config :: "string \<Rightarrow> gvalue"

text \<open>
  The schema of lines 28 to 47, in its order. A value of a schema type is held under
  one Go type: \<^verbatim>\<open>TypeInt\<close> as \<^verbatim>\<open>int\<close>, \<^verbatim>\<open>TypeBool\<close> as \<^verbatim>\<open>bool\<close>, \<^verbatim>\<open>TypeString\<close>
  as \<^verbatim>\<open>string\<close>, \<^verbatim>\<open>TypeList\<close> as \<^verbatim>\<open>[]interface{}\<close>. \<open>schemaTyped\<close> says so of
  the four fields of a configuration object; it holds of every configuration object the
  operations are given.
\<close>

datatype ValueType = TypeBool | TypeInt | TypeString | TypeList

definition Schema :: "string \<Rightarrow> ValueType option" where
  "Schema k =
     (if k = ''metadata'' then Some TypeList
      else if k = ''description'' then Some TypeString
      else if k = ''global_default'' then Some TypeBool
      else if k = ''value'' then Some TypeInt
      else None)"

fun heldAs :: "ValueType \<Rightarrow> gvalue \<Rightarrow> bool" where
  "heldAs TypeInt (GInt n) = True"
| "heldAs TypeBool (GBool b) = True"
| "heldAs TypeString (GString s) = True"
| "heldAs TypeList (GList xs) = True"
| "heldAs _ _ = False"

definition schemaTyped :: "ResourceData \<Rightarrow> bool" where
  "schemaTyped d =
     (heldAs TypeList (config d ''metadata'')
      \<and> heldAs TypeString (config d ''description'')
      \<and> heldAs TypeBool (config d ''global_default'')
      \<and> heldAs TypeInt (config d ''value''))"

definition Get_rd :: "ResourceData \<Rightarrow> string \<Rightarrow> gvalue" where
  "Get_rd d k = config d k"

definition GetOk :: "ResourceData \<Rightarrow> string \<Rightarrow> gvalue \<times> bool" where
  "GetOk d k = (config d k, \<not> isZero (config d k))"

definition HasChange :: "ResourceData \<Rightarrow> string \<Rightarrow> bool" where
  "HasChange d k = (state d k \<noteq> config d k)"

text \<open>
  \<^verbatim>\<open>Set\<close> writes through the schema. The key must be declared and the value must
  convert to the type of the key: any integer is stored as \<^verbatim>\<open>int\<close> under a
  \<^verbatim>\<open>TypeInt\<close> key (an \<^verbatim>\<open>int32\<close> is sign-extended), a boolean, a string and a list
  are stored as they are under a key of their type, and anything else is an error.
  Writing a list also rewrites the paths below it: \<^verbatim>\<open>metadata.0.name\<close> then reads
  the entry \<^verbatim>\<open>name\<close> of the first element of the list, and nil when there is none.
\<close>

fun writeThrough :: "ValueType \<Rightarrow> gvalue \<Rightarrow> gvalue option" where
  "writeThrough TypeInt (GInt n) = Some (GInt n)"
| "writeThrough TypeInt (GInt32 v) = Some (GInt (scast v))"
| "writeThrough TypeBool (GBool b) = Some (GBool b)"
| "writeThrough TypeString (GString s) = Some (GString s)"
| "writeThrough TypeList (GList xs) = Some (GList xs)"
| "writeThrough _ _ = None"

definition field :: "(string \<times> gvalue) list \<Rightarrow> string \<Rightarrow> gvalue" where
  "field kvs k = (case map_of kvs k of Some v \<Rightarrow> v | None \<Rightarrow> GNil)"

fun firstEntry :: "gvalue \<Rightarrow> string \<Rightarrow> gvalue" where
  "firstEntry (GList (GMap m # rest)) sub = field m sub"
| "firstEntry _ sub = GNil"

definition nestedPath :: "string \<Rightarrow> string \<Rightarrow> string option" where
  "nestedPath k p =
     (if take (length k + 3) p = k @ ''.0.'' then Some (drop (length k + 3) p) else None)"

definition Set_rd :: "string \<Rightarrow> gvalue \<Rightarrow> ResourceData \<Rightarrow> err option \<times> ResourceData" where
  "Set_rd k v d =
     (case Schema k of
        None \<Rightarrow> (Some (SetFailed k), d)
      | Some t \<Rightarrow>
          (case writeThrough t v of
             None \<Rightarrow> (Some (SetFailed k), d)
           | Some x \<Rightarrow>
               (None, d\<lparr>config := (\<lambda>p.
                  if p = k then x
                  else (case nestedPath k p of
                          Some sub \<Rightarrow> (if t = TypeList then firstEntry x sub else config d p)
                        | None \<Rightarrow> config d p))\<rparr>)))"

subsection \<open>The client, the helpers and the trace\<close>

text \<open>
  The client is an interface over a store of type \<open>'s\<close>; \<open>'j\<close> is the marshalled
  patch document. Every call is recorded in the trace, and so is every \<^verbatim>\<open>d.SetId\<close>.
\<close>

record ('s, 'j) Clientset =
  PriorityClasses_Create :: "PriorityClass \<Rightarrow> 's \<Rightarrow> (err + PriorityClass) \<times> 's"
  PriorityClasses_Get :: "string \<Rightarrow> 's \<Rightarrow> (err + PriorityClass) \<times> 's"
  PriorityClasses_Patch :: "string \<Rightarrow> 'j \<Rightarrow> 's \<Rightarrow> (err + PriorityClass) \<times> 's"
  PriorityClasses_Delete :: "string \<Rightarrow> 's \<Rightarrow> err option \<times> 's"

record 'j helpers =
  expandMetadata :: "gvalue list \<Rightarrow> ObjectMeta"
  flattenMetadata :: "ObjectMeta \<Rightarrow> ResourceData \<Rightarrow> (string \<times> gvalue) list list"
  patchMetadata :: "string \<Rightarrow> string \<Rightarrow> ResourceData \<Rightarrow> PatchOperation list"
  buildId :: "ObjectMeta \<Rightarrow> string"
  MarshalJSON :: "PatchOperation list \<Rightarrow> err + 'j"

datatype 'j event =
    StoreCreate PriorityClass
  | StoreGet string
  | StorePatch string 'j
  | StoreDelete string
  | LocalIdSet string

record ('s, 'j) world =
  rd :: ResourceData
  events :: "'j event list"
  remote :: 's

definition callCreate ::
  "('s, 'j) Clientset \<Rightarrow> PriorityClass \<Rightarrow> ('s, 'j) world \<Rightarrow> (err + PriorityClass) \<times> ('s, 'j) world" where
  "callCreate conn pc w =
     (case PriorityClasses_Create conn pc (remote w) of
        (r, s) \<Rightarrow> (r, w\<lparr>events := events w @ [StoreCreate pc], remote := s\<rparr>))"

definition callGet ::
  "('s, 'j) Clientset \<Rightarrow> string \<Rightarrow> ('s, 'j) world \<Rightarrow> (err + PriorityClass) \<times> ('s, 'j) world" where
  "callGet conn name w =
     (case PriorityClasses_Get conn name (remote w) of
        (r, s) \<Rightarrow> (r, w\<lparr>events := events w @ [StoreGet name], remote := s\<rparr>))"

definition callPatch ::
  "('s, 'j) Clientset \<Rightarrow> string \<Rightarrow> 'j \<Rightarrow> ('s, 'j) world \<Rightarrow> (err + PriorityClass) \<times> ('s, 'j) world" where
  "callPatch conn name data w =
     (case PriorityClasses_Patch conn name data (remote w) of
        (r, s) \<Rightarrow> (r, w\<lparr>events := events w @ [StorePatch name data], remote := s\<rparr>))"

definition callDelete ::
  "('s, 'j) Clientset \<Rightarrow> string \<Rightarrow> ('s, 'j) world \<Rightarrow> err option \<times> ('s, 'j) world" where
  "callDelete conn name w =
     (case PriorityClasses_Delete conn name (remote w) of
        (r, s) \<Rightarrow> (r, w\<lparr>events := events w @ [StoreDelete name], remote := s\<rparr>))"

definition SetId :: "string \<Rightarrow> ('s, 'j) world \<Rightarrow> ('s, 'j) world" where
  "SetId v w = w\<lparr>rd := (rd w)\<lparr>Id_rd := v\<rparr>, events := events w @ [LocalIdSet v]\<rparr>"

subsection \<open>The retry helper\<close>

text \<open>
  \<^verbatim>\<open>resource.Retry(timeout, f)\<close> of the Terraform SDK calls \<^verbatim>\<open>f\<close> again while it
  answers with a retryable error and the deadline has not passed. It stops with no
  error when \<^verbatim>\<open>f\<close> returns nil, with the error of \<^verbatim>\<open>f\<close> when that is not retryable,
  and at the deadline with the last error of \<^verbatim>\<open>f\<close> (a timeout error when \<^verbatim>\<open>f\<close> was
  never called). The clock is not modelled: the number of calls that fit before the
  deadline is the parameter \<open>attempts\<close>.
\<close>

datatype RetryError = RetryableError err | NonRetryableError err

fun RetryLoop ::
  "nat \<Rightarrow> err option \<Rightarrow> ('w \<Rightarrow> RetryError option \<times> 'w) \<Rightarrow> 'w \<Rightarrow> err option \<times> 'w" where
  "RetryLoop 0 lastErr f w = (Some (case lastErr of None \<Rightarrow> TimeoutError | Some e \<Rightarrow> e), w)"
| "RetryLoop (Suc n) lastErr f w =
     (case f w of
        (None, w') \<Rightarrow> (None, w')
      | (Some (RetryableError e), w') \<Rightarrow> RetryLoop n (Some e) f w'
      | (Some (NonRetryableError e), w') \<Rightarrow> (Some e, w'))"

definition Retry :: "nat \<Rightarrow> ('w \<Rightarrow> RetryError option \<times> 'w) \<Rightarrow> 'w \<Rightarrow> err option \<times> 'w" where
  "Retry attempts f w = RetryLoop attempts None f w"

subsection \<open>Read\<close>

text \<open>
  Lines 105 to 111 of the source: when the object read has an empty \<^verbatim>\<open>GenerateName\<close>
  and the configuration holds a non-zero \<^verbatim>\<open>metadata.0.generate_name\<close>, that value is
  written into the object.
\<close>

definition reinjectGenerateName :: "ResourceData \<Rightarrow> PriorityClass \<Rightarrow> PriorityClass outcome" where
  "reinjectGenerateName d priorityClass =
     (if GenerateName (ObjectMeta priorityClass) = [] then
        (case GetOk d ''metadata.0.generate_name'' of
           (v, True) \<Rightarrow>
             (case assertString v of
                Panic p \<Rightarrow> Panic p
              | Return s \<Rightarrow>
                  Return (priorityClass\<lparr>ObjectMeta := (ObjectMeta priorityClass)\<lparr>GenerateName := s\<rparr>\<rparr>))
         | (v, False) \<Rightarrow> Return priorityClass)
      else Return priorityClass)"

text \<open>
  Lines 105 to 133: from the object read to the configuration object. What
  \<^verbatim>\<open>flattenMetadata\<close> returns is a \<^verbatim>\<open>[]map[string]interface{}\<close>.
\<close>

definition flatten ::
  "'j helpers \<Rightarrow> PriorityClass \<Rightarrow> ResourceData \<Rightarrow> err option outcome \<times> ResourceData" where
  "flatten h priorityClass d =
     (case reinjectGenerateName d priorityClass of
        Panic p \<Rightarrow> (Panic p, d)
      | Return pc \<Rightarrow>
          (case Set_rd ''metadata'' (GList (map GMap (flattenMetadata h (ObjectMeta pc) d))) d of
             (Some e, d1) \<Rightarrow> (Return (Some e), d1)
           | (None, d1) \<Rightarrow>
               (case Set_rd ''value'' (GInt32 (Value pc)) d1 of
                  (Some e, d2) \<Rightarrow> (Return (Some e), d2)
                | (None, d2) \<Rightarrow>
                    (case Set_rd ''description'' (GString (Description pc)) d2 of
                       (Some e, d3) \<Rightarrow> (Return (Some e), d3)
                     | (None, d3) \<Rightarrow>
                         (case Set_rd ''global_default'' (GBool (GlobalDefault pc)) d3 of
                            (Some e, d4) \<Rightarrow> (Return (Some e), d4)
                          | (None, d4) \<Rightarrow> (Return None, d4))))))"

definition resourceKubernetesPriorityClassRead ::
  "'j helpers \<Rightarrow> ('s, 'j) Clientset \<Rightarrow> ('s, 'j) world \<Rightarrow> err option outcome \<times> ('s, 'j) world" where
  "resourceKubernetesPriorityClassRead h conn w =
     (let name = Id_rd (rd w) in
      case callGet conn name w of
        (Inl e, w1) \<Rightarrow> (Return (Some e), w1)
      | (Inr priorityClass, w1) \<Rightarrow>
          (case flatten h priorityClass (rd w1) of
             (r, d') \<Rightarrow> (r, w1\<lparr>rd := d'\<rparr>)))"

subsection \<open>Create\<close>

text \<open>Lines 54 to 64: from the configuration object to the object to create.\<close>

definition expand :: "'j helpers \<Rightarrow> ResourceData \<Rightarrow> PriorityClass outcome" where
  "expand h d =
     (case assertList (Get_rd d ''metadata'') of
        Panic p \<Rightarrow> Panic p
      | Return l \<Rightarrow>
          (let metadata = expandMetadata h l in
           case assertInt32 (Get_rd d ''value'') of
             Panic p \<Rightarrow> Panic p
           | Return v \<Rightarrow>
               (case assertString (Get_rd d ''description'') of
                  Panic p \<Rightarrow> Panic p
                | Return description \<Rightarrow>
                    (case assertBool (Get_rd d ''global_default'') of
                       Panic p \<Rightarrow> Panic p
                     | Return globalDefault \<Rightarrow>
                         Return \<lparr>ObjectMeta = metadata, Value = v,
                                 Description = description, GlobalDefault = globalDefault\<rparr>))))"

text \<open>Lines 75 to 84: one poll of the object just created.\<close>

definition poll ::
  "('s, 'j) Clientset \<Rightarrow> string \<Rightarrow> 32 word \<Rightarrow> ('s, 'j) world \<Rightarrow> RetryError option \<times> ('s, 'j) world" where
  "poll conn name expected w =
     (case callGet conn name w of
        (Inl e, w1) \<Rightarrow> (Some (NonRetryableError e), w1)
      | (Inr createdPriorityClass, w1) \<Rightarrow>
          (if Value createdPriorityClass = expected then (None, w1)
           else (Some (RetryableError (DoesntMatch (Value createdPriorityClass) expected)), w1)))"

definition resourceKubernetesPriorityClassCreate ::
  "'j helpers \<Rightarrow> ('s, 'j) Clientset \<Rightarrow> nat \<Rightarrow> ('s, 'j) world \<Rightarrow> err option outcome \<times> ('s, 'j) world" where
  "resourceKubernetesPriorityClassCreate h conn attempts w =
     (case expand h (rd w) of
        Panic p \<Rightarrow> (Panic p, w)
      | Return priorityClass \<Rightarrow>
          (case callCreate conn priorityClass w of
             (Inl e, w1) \<Rightarrow> (Return (Some (FailedToCreate e)), w1)
           | (Inr out, w1) \<Rightarrow>
               (let w2 = SetId (buildId h (ObjectMeta out)) w1 in
                case Retry attempts (poll conn (Name (ObjectMeta out)) (Value priorityClass)) w2 of
                  (Some e, w3) \<Rightarrow> (Return (Some e), w3)
                | (None, w3) \<Rightarrow> resourceKubernetesPriorityClassRead h conn w3)))"

subsection \<open>Update\<close>

text \<open>Lines 140 to 164: the operations of the patch, in the order of the source.\<close>

definition buildPatch :: "'j helpers \<Rightarrow> ResourceData \<Rightarrow> PatchOperation list outcome" where
  "buildPatch h d =
     (let ops = patchMetadata h ''metadata.0.'' ''/metadata/'' d in
      case (if HasChange d ''value'' then
              (case assertInt32 (Get_rd d ''value'') of
                 Panic p \<Rightarrow> Panic p
               | Return v \<Rightarrow> Return (ops @ [ReplaceOperation ''/value'' (GInt32 v)]))
            else Return ops) of
        Panic p \<Rightarrow> Panic p
      | Return ops1 \<Rightarrow>
          (case (if HasChange d ''description'' then
                   (case assertString (Get_rd d ''description'') of
                      Panic p \<Rightarrow> Panic p
                    | Return description \<Rightarrow>
                        Return (ops1 @ [ReplaceOperation ''/description'' (GString description)]))
                 else Return ops1) of
             Panic p \<Rightarrow> Panic p
           | Return ops2 \<Rightarrow>
               (if HasChange d ''global_default'' then
                  (case assertString (Get_rd d ''global_default'') of
                     Panic p \<Rightarrow> Panic p
                   | Return globalDefault \<Rightarrow>
                       Return (ops2 @ [ReplaceOperation ''/globalDefault'' (GString globalDefault)]))
                else Return ops2)))"

definition resourceKubernetesPriorityClassUpdate ::
  "'j helpers \<Rightarrow> ('s, 'j) Clientset \<Rightarrow> ('s, 'j) world \<Rightarrow> err option outcome \<times> ('s, 'j) world" where
  "resourceKubernetesPriorityClassUpdate h conn w =
     (let name = Id_rd (rd w) in
      case buildPatch h (rd w) of
        Panic p \<Rightarrow> (Panic p, w)
      | Return ops \<Rightarrow>
          (case MarshalJSON h ops of
             Inl e \<Rightarrow> (Return (Some (FailedToMarshal e)), w)
           | Inr data \<Rightarrow>
               (case callPatch conn name data w of
                  (Inl e, w1) \<Rightarrow> (Return (Some (FailedToUpdate e)), w1)
                | (Inr out, w1) \<Rightarrow>
                    resourceKubernetesPriorityClassRead h conn
                      (SetId (buildId h (ObjectMeta out)) w1))))"

subsection \<open>Delete and Exists\<close>

definition resourceKubernetesPriorityClassDelete ::
  "('s, 'j) Clientset \<Rightarrow> ('s, 'j) world \<Rightarrow> err option \<times> ('s, 'j) world" where
  "resourceKubernetesPriorityClassDelete conn w =
     (let name = Id_rd (rd w) in
      case callDelete conn name w of
        (Some e, w1) \<Rightarrow> (Some e, w1)
      | (None, w1) \<Rightarrow> (None, SetId [] w1))"

definition resourceKubernetesPriorityClassExists ::
  "('s, 'j) Clientset \<Rightarrow> ('s, 'j) world \<Rightarrow> (bool \<times> err option) \<times> ('s, 'j) world" where
  "resourceKubernetesPriorityClassExists conn w =
     (let name = Id_rd (rd w) in
      case callGet conn name w of
        (Inl e, w1) \<Rightarrow>
          (case e of
             StatusError code \<Rightarrow> (if code = 404 then ((False, None), w1) else ((True, Some e), w1))
           | _ \<Rightarrow> ((True, Some e), w1))
      | (Inr out, w1) \<Rightarrow> ((True, None), w1))"

subsection \<open>Instances used to run the operations\<close>

text \<open>
  A client double with canned answers: each call takes the next answer of the list,
  whatever the call is. It stands for any store along one run.
\<close>

definition nextAnswer ::
  "(err + PriorityClass) list \<Rightarrow> (err + PriorityClass) \<times> (err + PriorityClass) list" where
  "nextAnswer answers =
     (case answers of
        [] \<Rightarrow> (Inl (ClientError ''no answer left''), [])
      | a # rest \<Rightarrow> (a, rest))"

definition cannedClient :: "((err + PriorityClass) list, 'j) Clientset" where
  "cannedClient =
     \<lparr>PriorityClasses_Create = (\<lambda>pc. nextAnswer),
      PriorityClasses_Get = (\<lambda>name. nextAnswer),
      PriorityClasses_Patch = (\<lambda>name data. nextAnswer),
      PriorityClasses_Delete = (\<lambda>name answers.
         case nextAnswer answers of
           (Inl e, rest) \<Rightarrow> (Some e, rest)
         | (Inr out, rest) \<Rightarrow> (None, rest))\<rparr>"

fun stringOf :: "gvalue \<Rightarrow> string" where
  "stringOf (GString s) = s"
| "stringOf _ = []"

fun mapOf :: "gvalue \<Rightarrow> (string \<times> gvalue) list" where
  "mapOf (GMap kvs) = kvs"
| "mapOf _ = []"

definition expandStringMap :: "gvalue \<Rightarrow> (string \<times> string) list" where
  "expandStringMap v = map (\<lambda>(k, x). (k, stringOf x)) (mapOf v)"

definition flattenStringMap :: "(string \<times> string) list \<Rightarrow> gvalue" where
  "flattenStringMap kvs = GMap (map (\<lambda>(k, x). (k, GString x)) kvs)"

text \<open>
  Modelled from the spec: \<^verbatim>\<open>expandMetadata\<close> and \<^verbatim>\<open>flattenMetadata\<close>, which are in
  another file of the package. The spec gives one metadata sub-mapper for the identity
  block (name, labels, annotations, and the resource version and UID that the store
  assigns); a draft has no resource version and no UID.
\<close>

definition expandMetadataS :: "gvalue list \<Rightarrow> ObjectMeta" where
  "expandMetadataS l =
     (case l of
        GMap m # rest \<Rightarrow>
          \<lparr>Name = stringOf (field m ''name''),
           GenerateName = stringOf (field m ''generate_name''),
           Labels = expandStringMap (field m ''labels''),
           Annotations = expandStringMap (field m ''annotations''),
           ResourceVersion = [], UID = []\<rparr>
      | _ \<Rightarrow>
          \<lparr>Name = [], GenerateName = [], Labels = [], Annotations = [],
           ResourceVersion = [], UID = []\<rparr>)"

definition flattenMetadataS :: "ObjectMeta \<Rightarrow> ResourceData \<Rightarrow> (string \<times> gvalue) list list" where
  "flattenMetadataS m d =
     [[(''annotations'', flattenStringMap (Annotations m)),
       (''generate_name'', GString (GenerateName m)),
       (''labels'', flattenStringMap (Labels m)),
       (''name'', GString (Name m)),
       (''resource_version'', GString (ResourceVersion m)),
       (''uid'', GString (UID m))]]"

text \<open>
  Modelled from the spec: \<^verbatim>\<open>patchMetadata\<close>, which is in another file of the package.
  The spec gives a shared metadata-patch routine that emits one operation per changed
  label or annotation key: a remove for a key that is gone, a replace for a key whose
  value differs, an add for a new key.
\<close>

definition diffStringMap ::
  "string \<Rightarrow> (string \<times> gvalue) list \<Rightarrow> (string \<times> gvalue) list \<Rightarrow> PatchOperation list" where
  "diffStringMap pathPrefix oldV newV =
     concat (map (\<lambda>(k, x). case map_of newV k of
                              None \<Rightarrow> [RemoveOperation (pathPrefix @ ''/'' @ k)]
                            | Some y \<Rightarrow> []) oldV)
     @ concat (map (\<lambda>(k, y). case map_of oldV k of
                                None \<Rightarrow> [AddOperation (pathPrefix @ ''/'' @ k) y]
                              | Some x \<Rightarrow>
                                  (if x = y then []
                                   else [ReplaceOperation (pathPrefix @ ''/'' @ k) y])) newV)"

definition patchMetadataS :: "string \<Rightarrow> string \<Rightarrow> ResourceData \<Rightarrow> PatchOperation list" where
  "patchMetadataS keyPrefix pathPrefix d =
     (if HasChange d (keyPrefix @ ''annotations'') then
        diffStringMap (pathPrefix @ ''annotations'')
          (mapOf (state d (keyPrefix @ ''annotations'')))
          (mapOf (config d (keyPrefix @ ''annotations'')))
      else [])
     @ (if HasChange d (keyPrefix @ ''labels'') then
          diffStringMap (pathPrefix @ ''labels'')
            (mapOf (state d (keyPrefix @ ''labels'')))
            (mapOf (config d (keyPrefix @ ''labels'')))
        else [])"

text \<open>
  Modelled from the spec: \<^verbatim>\<open>buildId\<close> and \<^verbatim>\<open>MarshalJSON\<close>, which are in other files
  of the package. The Local ID of a cluster-scoped kind is the name alone; the
  marshalled document is kept as the sequence of its operations.
\<close>

definition buildIdS :: "ObjectMeta \<Rightarrow> string" where
  "buildIdS m = Name m"

definition helpersS :: "(PatchOperation list) helpers" where
  "helpersS =
     \<lparr>expandMetadata = expandMetadataS,
      flattenMetadata = flattenMetadataS,
      patchMetadata = patchMetadataS,
      buildId = buildIdS,
      MarshalJSON = Inr\<rparr>"

text \<open>
  The priority class \<^verbatim>\<open>high\<close> of the spec's scenarios: its metadata block, its
  configuration with a given \<^verbatim>\<open>value\<close>, \<^verbatim>\<open>global_default\<close> and labels, the object the
  store holds for it, and a world around a configuration object and canned answers.
\<close>

definition highMetadata :: "gvalue \<Rightarrow> gvalue" where
  "highMetadata labels =
     GList [GMap [(''annotations'', GMap []),
                  (''generate_name'', GString []),
                  (''labels'', labels),
                  (''name'', GString ''high''),
                  (''resource_version'', GString []),
                  (''uid'', GString [])]]"

definition highFields :: "gvalue \<Rightarrow> gvalue \<Rightarrow> gvalue \<Rightarrow> string \<Rightarrow> gvalue" where
  "highFields v globalDefault labels =
     field [(''metadata'', highMetadata labels),
            (''metadata.0.annotations'', GMap []),
            (''metadata.0.generate_name'', GString []),
            (''metadata.0.labels'', labels),
            (''value'', v),
            (''description'', GString []),
            (''global_default'', globalDefault)]"

definition highObject :: "32 word \<Rightarrow> PriorityClass" where
  "highObject v =
     \<lparr>ObjectMeta = \<lparr>Name = ''high'', GenerateName = [], Labels = [], Annotations = [],
                    ResourceVersion = ''1'', UID = ''u-1''\<rparr>,
      Value = v, Description = [], GlobalDefault = False\<rparr>"

definition worldOf ::
  "ResourceData \<Rightarrow> (err + PriorityClass) list \<Rightarrow> ((err + PriorityClass) list, PatchOperation list) world" where
  "worldOf d answers = \<lparr>rd = d, events = [], remote = answers\<rparr>"

text \<open>
  Configuration objects for \<^verbatim>\<open>high\<close>, with every value held under the Go type of
  its schema type: one that Update finds unchanged, a new one with a given value, one
  whose \<^verbatim>\<open>global_default\<close> changes from false to true, one whose \<^verbatim>\<open>value\<close> changes
  from 1000000 to 900000, and one with a configured name prefix.
\<close>

definition unchangedHigh :: ResourceData where
  "unchangedHigh =
     \<lparr>Id_rd = ''high'',
      state = highFields (GInt 1000000) (GBool False) (GMap []),
      config = highFields (GInt 1000000) (GBool False) (GMap [])\<rparr>"

definition freshHigh :: "64 word \<Rightarrow> ResourceData" where
  "freshHigh v =
     \<lparr>Id_rd = [],
      state = (\<lambda>k. GNil),
      config = highFields (GInt v) (GBool False) (GMap [])\<rparr>"

definition globalDefaultChanged :: ResourceData where
  "globalDefaultChanged =
     \<lparr>Id_rd = ''high'',
      state = highFields (GInt 1000000) (GBool False) (GMap []),
      config = highFields (GInt 1000000) (GBool True) (GMap [])\<rparr>"

definition valueChanged :: ResourceData where
  "valueChanged =
     \<lparr>Id_rd = ''high'',
      state = highFields (GInt 1000000) (GBool False) (GMap []),
      config = highFields (GInt 900000) (GBool False) (GMap [])\<rparr>"

definition generateNameConfigured :: ResourceData where
  "generateNameConfigured =
     \<lparr>Id_rd = ''prio-x7'',
      state = (highFields (GInt 1000000) (GBool False) (GMap []))
                (''metadata.0.generate_name'' := GString ''prio-''),
      config = (highFields (GInt 1000000) (GBool False) (GMap []))
                (''metadata.0.generate_name'' := GString ''prio-'')\<rparr>"

section \<open>Properties\<close>

subsection \<open>What each call leaves behind\<close>

text \<open>
  A call of the client appends its event to the trace and leaves the configuration
  object alone; so does a poll, and so does the whole retry loop, whose events are
  all reads of the object's name.
\<close>

lemma callGet_effect:
  "callGet conn name w = (r, w1) \<Longrightarrow> rd w1 = rd w \<and> events w1 = events w @ [StoreGet name]"
  by (auto simp: callGet_def split: prod.splits)

lemma callCreate_effect:
  "callCreate conn pc w = (r, w1) \<Longrightarrow> rd w1 = rd w \<and> events w1 = events w @ [StoreCreate pc]"
  by (auto simp: callCreate_def split: prod.splits)

lemma callPatch_effect:
  "callPatch conn name data w = (r, w1) \<Longrightarrow> rd w1 = rd w \<and> events w1 = events w @ [StorePatch name data]"
  by (auto simp: callPatch_def split: prod.splits)

lemma callDelete_effect:
  "callDelete conn name w = (r, w1) \<Longrightarrow> rd w1 = rd w \<and> events w1 = events w @ [StoreDelete name]"
  by (auto simp: callDelete_def split: prod.splits)

lemma poll_effect:
  "poll conn name v w = (r, w1) \<Longrightarrow> rd w1 = rd w \<and> events w1 = events w @ [StoreGet name]"
  by (auto simp: poll_def split: prod.splits sum.splits if_splits dest: callGet_effect)

lemma RetryLoop_poll_effect:
  "RetryLoop n lastErr (poll conn name v) w = (r, w') \<Longrightarrow>
     rd w' = rd w \<and> (\<exists>k. events w' = events w @ replicate k (StoreGet name))"
proof (induction n arbitrary: lastErr w)
  case 0
  then show ?case by auto
next
  case (Suc n)
  obtain a w1 where p: "poll conn name v w = (a, w1)" by (cases "poll conn name v w")
  from poll_effect [OF p] have e: "rd w1 = rd w" "events w1 = events w @ [StoreGet name]" by auto
  show ?case
  proof (cases a)
    case None
    with Suc.prems p e show ?thesis
      by (auto intro: exI [of _ "Suc 0"])
  next
    case (Some re)
    show ?thesis
    proof (cases re)
      case (RetryableError x)
      with Some Suc.prems p have "RetryLoop n (Some x) (poll conn name v) w1 = (r, w')" by simp
      from Suc.IH [OF this] obtain k where "rd w' = rd w1" "events w' = events w1 @ replicate k (StoreGet name)"
        by auto
      with e show ?thesis by (auto intro: exI [of _ "Suc k"])
    next
      case (NonRetryableError x)
      with Some Suc.prems p e show ?thesis by (auto intro: exI [of _ "Suc 0"])
    qed
  qed
qed

lemma Set_rd_Id: "Set_rd k v d = (r, d') \<Longrightarrow> Id_rd d' = Id_rd d"
  by (auto simp: Set_rd_def split: option.splits)

lemma flatten_Id: "flatten h pc d = (r, d') \<Longrightarrow> Id_rd d' = Id_rd d"
  by (auto simp: flatten_def split: outcome.splits prod.splits option.splits dest!: Set_rd_Id)

lemma Read_effect:
  "resourceKubernetesPriorityClassRead h conn w = (r, w') \<Longrightarrow>
     Id_rd (rd w') = Id_rd (rd w) \<and> events w' = events w @ [StoreGet (Id_rd (rd w))]"
  by (auto simp: resourceKubernetesPriorityClassRead_def Let_def
           split: prod.splits sum.splits dest!: callGet_effect flatten_Id)

subsection \<open>The assertions on a configuration held under the schema types\<close>

text \<open>
  Lines 55 and 143 assert \<^verbatim>\<open>int32\<close> on \<^verbatim>\<open>value\<close>, which the schema holds as \<^verbatim>\<open>int\<close>,
  and line 159 asserts \<^verbatim>\<open>string\<close> on \<^verbatim>\<open>global_default\<close>, which the schema holds as
  \<^verbatim>\<open>bool\<close>. So on every configuration held under the schema types the building of the
  object to create panics, and with it Create, before any call; the building of the
  patch panics when \<^verbatim>\<open>value\<close> or \<^verbatim>\<open>global_default\<close> has changed; and when neither
  has, the patch is the operations of the metadata routine followed by one replace
  operation for a changed \<^verbatim>\<open>description\<close>. What Read stores under \<^verbatim>\<open>value\<close> reads
  back as \<^verbatim>\<open>int\<close>, and the metadata block it stores is seen under its paths.
\<close>

lemma Set_rd_value_reads_back_int:
  "\<exists>d'. Set_rd ''value'' (GInt32 v) d = (None, d') \<and> config d' ''value'' = GInt (scast v)"
  by (simp add: Set_rd_def Schema_def)

lemma Set_rd_metadata_rewrites_paths:
  "\<exists>d'. Set_rd ''metadata'' (GList (GMap m # rest)) d = (None, d')
        \<and> config d' ''metadata.0.generate_name'' = field m ''generate_name''"
  by (simp add: Set_rd_def Schema_def nestedPath_def)

lemma heldAs_cases:
  "heldAs TypeInt v \<Longrightarrow> \<exists>n. v = GInt n"
  "heldAs TypeBool v \<Longrightarrow> \<exists>b. v = GBool b"
  "heldAs TypeString v \<Longrightarrow> \<exists>s. v = GString s"
  "heldAs TypeList v \<Longrightarrow> \<exists>xs. v = GList xs"
  by (cases v; simp)+

lemma expand_schemaTyped_panics:
  "schemaTyped d \<Longrightarrow> expand h d = Panic ''interface conversion: interface {} is not int32''"
  by (auto simp: schemaTyped_def expand_def Get_rd_def dest!: heldAs_cases)

lemma Create_schemaTyped_panics:
  "schemaTyped (rd w) \<Longrightarrow>
     resourceKubernetesPriorityClassCreate h conn attempts w
       = (Panic ''interface conversion: interface {} is not int32'', w)"
  by (simp add: resourceKubernetesPriorityClassCreate_def expand_schemaTyped_panics)

lemma buildPatch_value_changed_panics:
  "schemaTyped d \<Longrightarrow> HasChange d ''value'' \<Longrightarrow>
     buildPatch h d = Panic ''interface conversion: interface {} is not int32''"
  by (auto simp: schemaTyped_def buildPatch_def Get_rd_def Let_def dest!: heldAs_cases)

lemma buildPatch_global_default_changed_panics:
  "schemaTyped d \<Longrightarrow> \<not> HasChange d ''value'' \<Longrightarrow> HasChange d ''global_default'' \<Longrightarrow>
     buildPatch h d = Panic ''interface conversion: interface {} is not string''"
  by (auto simp: schemaTyped_def buildPatch_def Get_rd_def Let_def dest!: heldAs_cases)

lemma buildPatch_description:
  "schemaTyped d \<Longrightarrow> \<not> HasChange d ''value'' \<Longrightarrow> \<not> HasChange d ''global_default'' \<Longrightarrow>
     buildPatch h d =
       Return (patchMetadata h ''metadata.0.'' ''/metadata/'' d
               @ (if HasChange d ''description''
                  then [ReplaceOperation ''/description'' (Get_rd d ''description'')] else []))"
  by (auto simp: schemaTyped_def buildPatch_def Get_rd_def Let_def dest!: heldAs_cases)

text \<open>
  Lines 66 to 90, for a run that has built its object: after a successful
  \<^verbatim>\<open>store.Create\<close> the trace is that call, then the setting of the Local ID, then only
  reads of the store.
\<close>

lemma Create_trace_after_store_Create:
  assumes "expand h (rd w) = Return pc"
    and "callCreate conn pc w = (Inr out, w1)"
    and "resourceKubernetesPriorityClassCreate h conn attempts w = (r, w')"
  shows "Id_rd (rd w') = buildId h (ObjectMeta out)
         \<and> (\<exists>gets. events w' = events w @ [StoreCreate pc, LocalIdSet (buildId h (ObjectMeta out))]
                                  @ map StoreGet gets)"
proof -
  let ?id = "buildId h (ObjectMeta out)"
  let ?w2 = "SetId ?id w1"
  from callCreate_effect [OF assms(2)] have e1: "events w1 = events w @ [StoreCreate pc]" by simp
  have e2: "Id_rd (rd ?w2) = ?id" "events ?w2 = events w @ [StoreCreate pc, LocalIdSet ?id]"
    using e1 by (simp_all add: SetId_def)
  obtain a w3 where R: "Retry attempts (poll conn (Name (ObjectMeta out)) (Value pc)) ?w2 = (a, w3)"
    by (cases "Retry attempts (poll conn (Name (ObjectMeta out)) (Value pc)) ?w2")
  from RetryLoop_poll_effect [OF R [unfolded Retry_def]] obtain k where
    e3: "rd w3 = rd ?w2" "events w3 = events ?w2 @ replicate k (StoreGet (Name (ObjectMeta out)))"
    by auto
  have m: "replicate k (StoreGet (Name (ObjectMeta out))) = map StoreGet (replicate k (Name (ObjectMeta out)))"
    by simp
  show ?thesis
  proof (cases a)
    case (Some e)
    with assms R have "w' = w3"
      by (simp add: resourceKubernetesPriorityClassCreate_def Let_def)
    with e2 e3 m show ?thesis by (auto intro: exI [of _ "replicate k (Name (ObjectMeta out))"])
  next
    case None
    with assms R have "resourceKubernetesPriorityClassRead h conn w3 = (r, w')"
      by (simp add: resourceKubernetesPriorityClassCreate_def Let_def)
    from Read_effect [OF this] have "Id_rd (rd w') = Id_rd (rd w3)"
      "events w' = events w3 @ [StoreGet (Id_rd (rd w3))]" by auto
    with e2 e3 show ?thesis
      by (auto intro: exI [of _ "replicate k (Name (ObjectMeta out)) @ [?id]"])
  qed
qed

lemmas run_defs = worldOf_def cannedClient_def nextAnswer_def callGet_def callCreate_def
  callPatch_def callDelete_def SetId_def helpersS_def buildIdS_def highObject_def
  highFields_def highMetadata_def field_def Get_rd_def GetOk_def HasChange_def Set_rd_def
  Schema_def nestedPath_def expandMetadataS_def flattenMetadataS_def patchMetadataS_def
  diffStringMap_def expandStringMap_def flattenStringMap_def

subsection \<open>The poll after creation\<close>

text \<open>
  One poll reads the object by name. A failed read is not retryable, an object whose
  value is the one submitted ends the loop without error, any other object is a
  retryable mismatch. A non-retryable error ends the retry loop at once, and a loop
  whose polls are all retryable ends with an error when its attempts are used up.
\<close>

lemma poll_classification:
  "callGet conn name w = (r, w1) \<Longrightarrow>
     poll conn name v w =
       ((case r of
           Inl e \<Rightarrow> Some (NonRetryableError e)
         | Inr created \<Rightarrow>
             (if Value created = v then None
              else Some (RetryableError (DoesntMatch (Value created) v)))), w1)"
  by (simp add: poll_def split: sum.splits)

lemma RetryLoop_hard_error:
  "f w = (Some (NonRetryableError e), w1) \<Longrightarrow> RetryLoop (Suc n) lastErr f w = (Some e, w1)"
  by simp

lemma RetryLoop_never_converging:
  assumes "\<And>x. \<exists>e x'. f x = (Some (RetryableError e), x')"
  shows "\<exists>e w'. RetryLoop n lastErr f w = (Some e, w')"
proof (induction n arbitrary: lastErr w)
  case 0
  show ?case by simp
next
  case (Suc n)
  from assms [of w] obtain e x' where "f w = (Some (RetryableError e), x')" by blast
  with Suc.IH [of "Some e" x'] show ?case by simp
qed

subsection \<open>Create\<close>

text \<open>
  Claim C3, as stated, fails. On a configuration whose \<^verbatim>\<open>value\<close>, 4294967296, is out
  of the range of \<^verbatim>\<open>int32\<close>, Create returns no validation error, and no error at all:
  it panics at the assertion of line 55.
\<close>

theorem Create_out_of_range_panics:
  "schemaTyped (freshHigh 4294967296)
   \<and> Get_rd (freshHigh 4294967296) ''value'' = GInt 4294967296
   \<and> resourceKubernetesPriorityClassCreate helpersS cannedClient 2
        (worldOf (freshHigh 4294967296) [Inr (highObject 0), Inr (highObject 0)])
     = (Panic ''interface conversion: interface {} is not int32'',
        worldOf (freshHigh 4294967296) [Inr (highObject 0), Inr (highObject 0)])"
  by (simp add: freshHigh_def schemaTyped_def run_defs expand_def
        resourceKubernetesPriorityClassCreate_def)

text \<open>
  Claim C3, amended. Create has no validation step and returns no validation error.
  Every run of Create either stops while the object to create is built, by the failure
  of a type assertion and with the world as it was given, so without any call to the
  store, or builds the object and calls \<^verbatim>\<open>store.Create\<close> with it before anything else.
  Every error value that Create returns belongs to a run of the second kind.
\<close>

theorem Create_stops_or_calls_store_Create:
  assumes "resourceKubernetesPriorityClassCreate h conn attempts w = (r, w')"
  shows "(\<exists>p. expand h (rd w) = Panic p \<and> r = Panic p \<and> w' = w)
       \<or> (\<exists>pc rest. expand h (rd w) = Return pc
             \<and> events w' = events w @ StoreCreate pc # rest)"
proof (cases "expand h (rd w)")
  case (Panic p)
  with assms show ?thesis by (simp add: resourceKubernetesPriorityClassCreate_def)
next
  case (Return pc)
  obtain a w1 where c: "callCreate conn pc w = (a, w1)" by (cases "callCreate conn pc w")
  from callCreate_effect [OF c] have e1: "events w1 = events w @ [StoreCreate pc]" by simp
  show ?thesis
  proof (cases a)
    case (Inl e)
    with assms Return c have "w' = w1" by (simp add: resourceKubernetesPriorityClassCreate_def)
    with e1 Return show ?thesis by simp
  next
    case (Inr out)
    from Create_trace_after_store_Create [OF Return c [unfolded Inr] assms] Return
    show ?thesis by auto
  qed
qed

text \<open>The theorem on the run of the configuration with the value 4294967296.\<close>

theorem Create_stops_or_calls_store_Create_witness:
  "resourceKubernetesPriorityClassCreate helpersS cannedClient 2
        (worldOf (freshHigh 4294967296) [Inr (highObject 0), Inr (highObject 0)])
     = (Panic ''interface conversion: interface {} is not int32'',
        worldOf (freshHigh 4294967296) [Inr (highObject 0), Inr (highObject 0)])
   \<and> expand helpersS (freshHigh 4294967296)
        = Panic ''interface conversion: interface {} is not int32''"
proof -
  let ?w = "worldOf (freshHigh 4294967296) [Inr (highObject 0), Inr (highObject 0)]
              :: ((err + PriorityClass) list, PatchOperation list) world"
  let ?p = "''interface conversion: interface {} is not int32''"
  have t: "schemaTyped (rd ?w)" by (simp add: freshHigh_def schemaTyped_def run_defs)
  have c: "resourceKubernetesPriorityClassCreate helpersS cannedClient 2 ?w = (Panic ?p, ?w)"
    by (rule Create_schemaTyped_panics [OF t])
  have d: "rd ?w = freshHigh 4294967296" by (simp add: worldOf_def)
  from Create_stops_or_calls_store_Create [OF c] c show ?thesis
    by (auto simp: d)
qed


subsection \<open>Read\<close>

text \<open>
  Claim C9. In every Read whose object comes back with an empty \<^verbatim>\<open>GenerateName\<close> while
  the configuration object holds a non-empty string under
  \<^verbatim>\<open>metadata.0.generate_name\<close>, that string is written into the object first, and the
  metadata block stored by Read is \<^verbatim>\<open>flattenMetadata\<close> of the object so corrected,
  computed against the configuration object as it was before any \<^verbatim>\<open>Set\<close>.
\<close>

theorem Read_reinjects_generate_name:
  assumes "callGet conn (Id_rd (rd w)) w = (Inr pc, w1)"
    and "GenerateName (ObjectMeta pc) = []"
    and "Get_rd (rd w) ''metadata.0.generate_name'' = GString g"
    and "g \<noteq> []"
  shows "reinjectGenerateName (rd w) pc = Return (pc\<lparr>ObjectMeta := (ObjectMeta pc)\<lparr>GenerateName := g\<rparr>\<rparr>)
       \<and> (\<exists>w'. resourceKubernetesPriorityClassRead h conn w = (Return None, w')
            \<and> config (rd w') ''metadata''
                = GList (map GMap (flattenMetadata h ((ObjectMeta pc)\<lparr>GenerateName := g\<rparr>) (rd w))))"
proof -
  from callGet_effect [OF assms(1)] have d: "rd w1 = rd w" by simp
  have ri: "reinjectGenerateName (rd w) pc = Return (pc\<lparr>ObjectMeta := (ObjectMeta pc)\<lparr>GenerateName := g\<rparr>\<rparr>)"
    using assms(2-4) by (simp add: reinjectGenerateName_def GetOk_def Get_rd_def)
  have "\<exists>d'. flatten h pc (rd w) = (Return None, d')
          \<and> config d' ''metadata''
              = GList (map GMap (flattenMetadata h ((ObjectMeta pc)\<lparr>GenerateName := g\<rparr>) (rd w)))"
    by (simp add: flatten_def ri Set_rd_def Schema_def nestedPath_def)
  then obtain d' where "flatten h pc (rd w) = (Return None, d')"
    "config d' ''metadata''
       = GList (map GMap (flattenMetadata h ((ObjectMeta pc)\<lparr>GenerateName := g\<rparr>) (rd w)))" by blast
  with assms(1) d ri show ?thesis
    by (simp add: resourceKubernetesPriorityClassRead_def Let_def)
qed

text \<open>
  The theorem on an object named \<^verbatim>\<open>prio-x7\<close> that the store returns without its
  \<^verbatim>\<open>generateName\<close>, read under a configuration with \<^verbatim>\<open>generate_name = "prio-"\<close>.
\<close>

theorem Read_reinjects_generate_name_witness:
  "Get_rd generateNameConfigured ''metadata.0.generate_name'' = GString ''prio-''
   \<and> (\<exists>w'. resourceKubernetesPriorityClassRead helpersS cannedClient
              (worldOf generateNameConfigured
                 [Inr ((highObject 1000000)\<lparr>ObjectMeta := (ObjectMeta (highObject 1000000))\<lparr>Name := ''prio-x7''\<rparr>\<rparr>)])
            = (Return None, w')
          \<and> config (rd w') ''metadata''
              = GList [GMap [(''annotations'', GMap []),
                  (''generate_name'', GString ''prio-''),
                  (''labels'', GMap []),
                  (''name'', GString ''prio-x7''),
                  (''resource_version'', GString ''1''),
                  (''uid'', GString ''u-1'')]])"
proof -
  let ?pc = "(highObject 1000000)\<lparr>ObjectMeta := (ObjectMeta (highObject 1000000))\<lparr>Name := ''prio-x7''\<rparr>\<rparr>"
  let ?w = "worldOf generateNameConfigured [Inr ?pc]"
  let ?w1 = "\<lparr>rd = generateNameConfigured, events = [StoreGet ''prio-x7''], remote = []\<rparr>
               :: ((err + PriorityClass) list, PatchOperation list) world"
  have d: "rd ?w = generateNameConfigured" by (simp add: worldOf_def)
  have g: "callGet cannedClient (Id_rd (rd ?w)) ?w = (Inr ?pc, ?w1)"
    by (simp add: callGet_def cannedClient_def nextAnswer_def worldOf_def generateNameConfigured_def)
  have n: "GenerateName (ObjectMeta ?pc) = []" by (simp add: highObject_def)
  have k: "Get_rd (rd ?w) ''metadata.0.generate_name'' = GString ''prio-''"
    by (simp add: worldOf_def generateNameConfigured_def Get_rd_def)
  have z: "''prio-'' \<noteq> []" by simp
  from Read_reinjects_generate_name [OF g n k z, of helpersS] k show ?thesis
    by (simp add: worldOf_def helpersS_def flattenMetadataS_def flattenStringMap_def highObject_def)
qed

text \<open>
  Claim C5. The claim is that flattening the object expanded from a valid Flat Model
  gives the Flat Model back. On the configuration of the spec's scenario, expanding
  returns no object: line 55 asserts \<^verbatim>\<open>int32\<close> on the value 1000000, held as \<^verbatim>\<open>int\<close>,
  and panics, so there is nothing to flatten.
\<close>

theorem expand_scenario_panics:
  "schemaTyped (freshHigh 1000000)
   \<and> Get_rd (freshHigh 1000000) ''value'' = GInt 1000000
   \<and> expand helpersS (freshHigh 1000000)
       = Panic ''interface conversion: interface {} is not int32''"
  by (simp add: freshHigh_def schemaTyped_def run_defs expand_def)

subsection \<open>Update\<close>

text \<open>
  Claim C1, as stated, fails. With no field changed the patch has no operation, and
  Update sends it all the same: the trace holds the call \<^verbatim>\<open>store.Patch\<close> with the
  empty document, the setting of the Local ID and the read of Read.
\<close>

theorem Update_unchanged_calls_store:
  "\<not> HasChange unchangedHigh ''metadata''
   \<and> \<not> HasChange unchangedHigh ''value''
   \<and> \<not> HasChange unchangedHigh ''description''
   \<and> \<not> HasChange unchangedHigh ''global_default''
   \<and> buildPatch helpersS unchangedHigh = Return []
   \<and> events (snd (resourceKubernetesPriorityClassUpdate helpersS cannedClient
                    (worldOf unchangedHigh [Inr (highObject 1000000), Inr (highObject 1000000)])))
       = [StorePatch ''high'' [], LocalIdSet ''high'', StoreGet ''high'']"
  by (simp add: unchangedHigh_def run_defs buildPatch_def resourceKubernetesPriorityClassUpdate_def
        resourceKubernetesPriorityClassRead_def flatten_def reinjectGenerateName_def)

text \<open>
  Claim C1, amended. For every Update in which no field differs (the metadata routine
  gives no operation and \<^verbatim>\<open>value\<close>, \<^verbatim>\<open>description\<close> and \<^verbatim>\<open>global_default\<close> are
  unchanged), the patch is empty, \<^verbatim>\<open>store.Patch\<close> is called once with the marshalled
  empty document, and Update goes on as for any patch: it returns the wrapped error of
  the store, or sets the Local ID from the answer and runs Read.
\<close>

theorem Update_unchanged_sends_empty_patch:
  assumes "patchMetadata h ''metadata.0.'' ''/metadata/'' (rd w) = []"
    and "\<not> HasChange (rd w) ''value''"
    and "\<not> HasChange (rd w) ''description''"
    and "\<not> HasChange (rd w) ''global_default''"
    and "MarshalJSON h [] = Inr data"
    and "callPatch conn (Id_rd (rd w)) data w = (r, w1)"
  shows "buildPatch h (rd w) = Return []
       \<and> events w1 = events w @ [StorePatch (Id_rd (rd w)) data]
       \<and> resourceKubernetesPriorityClassUpdate h conn w =
           (case r of
              Inl e \<Rightarrow> (Return (Some (FailedToUpdate e)), w1)
            | Inr out \<Rightarrow>
                resourceKubernetesPriorityClassRead h conn (SetId (buildId h (ObjectMeta out)) w1))"
proof -
  have bp: "buildPatch h (rd w) = Return []"
    using assms(1-4) by (simp add: buildPatch_def)
  from callPatch_effect [OF assms(6)] have ev: "events w1 = events w @ [StorePatch (Id_rd (rd w)) data]"
    by simp
  show ?thesis using bp ev assms(5,6)
    by (simp add: resourceKubernetesPriorityClassUpdate_def Let_def split: sum.splits)
qed

text \<open>The theorem on a store that refuses the patch.\<close>

theorem Update_unchanged_sends_empty_patch_witness:
  "patchMetadata helpersS ''metadata.0.'' ''/metadata/'' unchangedHigh = []
   \<and> \<not> HasChange unchangedHigh ''value''
   \<and> \<not> HasChange unchangedHigh ''description''
   \<and> \<not> HasChange unchangedHigh ''global_default''
   \<and> MarshalJSON helpersS [] = Inr []
   \<and> buildPatch helpersS unchangedHigh = Return []
   \<and> resourceKubernetesPriorityClassUpdate helpersS cannedClient
        (worldOf unchangedHigh [Inl (StatusError 500)])
       = (Return (Some (FailedToUpdate (StatusError 500))),
          \<lparr>rd = unchangedHigh, events = [StorePatch ''high'' []], remote = []\<rparr>)"
proof -
  let ?w = "worldOf unchangedHigh [Inl (StatusError 500)]"
  let ?w1 = "\<lparr>rd = unchangedHigh, events = [StorePatch ''high'' []], remote = []\<rparr>
               :: ((err + PriorityClass) list, PatchOperation list) world"
  have d: "rd ?w = unchangedHigh" by (simp add: worldOf_def)
  have a: "patchMetadata helpersS ''metadata.0.'' ''/metadata/'' (rd ?w) = []"
    by (simp add: unchangedHigh_def run_defs)
  have b: "\<not> HasChange (rd ?w) ''value''" "\<not> HasChange (rd ?w) ''description''"
    "\<not> HasChange (rd ?w) ''global_default''"
    by (simp_all add: unchangedHigh_def run_defs)
  have c: "MarshalJSON helpersS [] = Inr []" by (simp add: helpersS_def)
  have p: "callPatch cannedClient (Id_rd (rd ?w)) [] ?w = (Inl (StatusError 500), ?w1)"
    by (simp add: unchangedHigh_def run_defs)
  from Update_unchanged_sends_empty_patch [OF a b c p] a b c show ?thesis
    by (simp add: d)
qed

text \<open>
  Claim C6. The claim is that the patch holds one operation for each field that
  differs, and that a change of \<^verbatim>\<open>value\<close> alone gives one replace operation at the
  value path. On the spec's scenario, \<^verbatim>\<open>value\<close> changed from 1000000 to 900000 and
  nothing else, no patch is built: line 143 asserts \<^verbatim>\<open>int32\<close> on the new value, held
  as \<^verbatim>\<open>int\<close>, and panics, and Update stops before any call to the store.
\<close>

theorem buildPatch_value_change_panics:
  "schemaTyped valueChanged
   \<and> state valueChanged ''value'' = GInt 1000000
   \<and> Get_rd valueChanged ''value'' = GInt 900000
   \<and> HasChange valueChanged ''value''
   \<and> \<not> HasChange valueChanged ''description''
   \<and> \<not> HasChange valueChanged ''global_default''
   \<and> \<not> HasChange valueChanged ''metadata''
   \<and> buildPatch helpersS valueChanged
       = Panic ''interface conversion: interface {} is not int32''
   \<and> resourceKubernetesPriorityClassUpdate helpersS cannedClient
        (worldOf valueChanged [Inr (highObject 900000), Inr (highObject 900000)])
     = (Panic ''interface conversion: interface {} is not int32'',
        worldOf valueChanged [Inr (highObject 900000), Inr (highObject 900000)])"
  by (simp add: valueChanged_def schemaTyped_def run_defs buildPatch_def
        resourceKubernetesPriorityClassUpdate_def)

text \<open>
  Claim C4. The claim says that an Update with a changed \<^verbatim>\<open>global_default\<close> drops the
  type mismatch and goes on. Run on a configuration whose \<^verbatim>\<open>global_default\<close> changes
  from false to true, held as a boolean as the schema declares, Update panics at the
  assertion \<^verbatim>\<open>.(string)\<close> of line 159: nothing is marshalled and the store is not called.
\<close>

theorem Update_global_default_panics:
  "HasChange globalDefaultChanged ''global_default''
   \<and> Get_rd globalDefaultChanged ''global_default'' = GBool True
   \<and> resourceKubernetesPriorityClassUpdate helpersS cannedClient
        (worldOf globalDefaultChanged [Inr (highObject 1000000), Inr (highObject 1000000)])
     = (Panic ''interface conversion: interface {} is not string'',
        worldOf globalDefaultChanged [Inr (highObject 1000000), Inr (highObject 1000000)])"
  by (simp add: globalDefaultChanged_def run_defs buildPatch_def
        resourceKubernetesPriorityClassUpdate_def)

subsection \<open>Delete and Exists\<close>

text \<open>
  Claim C2, as stated, fails. When \<^verbatim>\<open>store.Delete\<close> reports not-found (status 404),
  Delete returns that error and the Local ID stays \<^verbatim>\<open>high\<close>.
\<close>

theorem Delete_not_found_returns_error:
  "resourceKubernetesPriorityClassDelete cannedClient (worldOf unchangedHigh [Inl (StatusError 404)])
     = (Some (StatusError 404),
        \<lparr>rd = unchangedHigh, events = [StoreDelete ''high''], remote = []\<rparr>)
   \<and> Id_rd unchangedHigh = ''high''"
  by (simp add: unchangedHigh_def run_defs resourceKubernetesPriorityClassDelete_def)

text \<open>
  Claim C2, amended. For every Delete, an error of \<^verbatim>\<open>store.Delete\<close>, not-found
  included, is returned unchanged and the Local ID is kept; when \<^verbatim>\<open>store.Delete\<close>
  succeeds, Delete succeeds and the Local ID is cleared.
\<close>

theorem Delete_returns_store_error_or_clears_id:
  assumes "callDelete conn (Id_rd (rd w)) w = (r, w1)"
  shows "(\<forall>e. r = Some e \<longrightarrow>
            resourceKubernetesPriorityClassDelete conn w = (Some e, w1)
            \<and> Id_rd (rd w1) = Id_rd (rd w))
       \<and> (r = None \<longrightarrow>
            resourceKubernetesPriorityClassDelete conn w = (None, SetId [] w1)
            \<and> Id_rd (rd (SetId [] w1)) = [])"
  using assms callDelete_effect [OF assms]
  by (auto simp: resourceKubernetesPriorityClassDelete_def Let_def SetId_def)

text \<open>The theorem on a store that deletes the object.\<close>

theorem Delete_returns_store_error_or_clears_id_witness:
  "callDelete cannedClient (Id_rd (rd (worldOf unchangedHigh [Inr (highObject 1000000)])))
       (worldOf unchangedHigh [Inr (highObject 1000000)])
     = (None, \<lparr>rd = unchangedHigh, events = [StoreDelete ''high''], remote = []\<rparr>)
   \<and> fst (resourceKubernetesPriorityClassDelete cannedClient
            (worldOf unchangedHigh [Inr (highObject 1000000)])) = None
   \<and> Id_rd (rd (snd (resourceKubernetesPriorityClassDelete cannedClient
            (worldOf unchangedHigh [Inr (highObject 1000000)])))) = []"
proof -
  let ?w = "worldOf unchangedHigh [Inr (highObject 1000000)]"
  let ?w1 = "\<lparr>rd = unchangedHigh, events = [StoreDelete ''high''], remote = []\<rparr>
               :: ((err + PriorityClass) list, PatchOperation list) world"
  have c: "callDelete cannedClient (Id_rd (rd ?w)) ?w = (None, ?w1)"
    by (simp add: unchangedHigh_def run_defs)
  from Delete_returns_store_error_or_clears_id [OF c] c show ?thesis by simp
qed

text \<open>
  Claim C10. For every Exists call: when the read of the store fails with a
  \<^verbatim>\<open>StatusError\<close> of code 404, Exists returns false and no error; when it fails with
  any other error, Exists returns true together with that error; when it succeeds,
  Exists returns true and no error.
\<close>

theorem Exists_results:
  assumes "callGet conn (Id_rd (rd w)) w = (r, w1)"
  shows "(r = Inl (StatusError 404) \<longrightarrow>
            resourceKubernetesPriorityClassExists conn w = ((False, None), w1))
       \<and> (\<forall>e. r = Inl e \<and> e \<noteq> StatusError 404 \<longrightarrow>
            resourceKubernetesPriorityClassExists conn w = ((True, Some e), w1))
       \<and> (\<forall>out. r = Inr out \<longrightarrow>
            resourceKubernetesPriorityClassExists conn w = ((True, None), w1))"
  using assms
  by (auto simp: resourceKubernetesPriorityClassExists_def Let_def split: err.splits)

text \<open>The theorem on the three kinds of answer: not found, a server error, the object.\<close>

theorem Exists_results_witness:
  "resourceKubernetesPriorityClassExists cannedClient
      (worldOf unchangedHigh [Inl (StatusError 404)])
     = ((False, None), \<lparr>rd = unchangedHigh, events = [StoreGet ''high''], remote = []\<rparr>)
   \<and> resourceKubernetesPriorityClassExists cannedClient
      (worldOf unchangedHigh [Inl (StatusError 500)])
     = ((True, Some (StatusError 500)),
        \<lparr>rd = unchangedHigh, events = [StoreGet ''high''], remote = []\<rparr>)
   \<and> resourceKubernetesPriorityClassExists cannedClient
      (worldOf unchangedHigh [Inr (highObject 1000000)])
     = ((True, None), \<lparr>rd = unchangedHigh, events = [StoreGet ''high''], remote = []\<rparr>)"
proof -
  let ?w1 = "\<lparr>rd = unchangedHigh, events = [StoreGet ''high''], remote = []\<rparr>
               :: ((err + PriorityClass) list, PatchOperation list) world"
  have g: "callGet cannedClient (Id_rd (rd (worldOf unchangedHigh [a]))) (worldOf unchangedHigh [a])
             = (a, ?w1)" for a
    by (simp add: callGet_def cannedClient_def nextAnswer_def worldOf_def unchangedHigh_def)
  from Exists_results [OF g [of "Inl (StatusError 404)"]]
       Exists_results [OF g [of "Inl (StatusError 500)"]]
       Exists_results [OF g [of "Inr (highObject 1000000)"]]
  show ?thesis by simp
qed

end
